theory Spec2Isabelle
  imports Main
begin

section \<open>Data: utils/Interfaces and utils/Constants\<close>

text \<open>
  Modelled from the spec: the enum \<open>loginTypes\<close> of utils/Constants, which is not among the
  sources. The spec's data model names its four members PasswordCredential, ClientCredential,
  InteractiveBrowser and PlatformDelegated; the helper names them \<open>UserNamePassword\<close>
  (dispatched to \<open>loginWithUsernamePassword\<close>), \<open>ClientIdSecret\<close>
  (\<open>loginWithClientIdSecret\<close>), \<open>MicrosoftLogin\<close> (\<open>loginWithPrompt\<close>: client id, URL opener,
  timeout hook) and \<open>Azure\<close> (\<open>loginWithAzure\<close>: endpoint only).
\<close>

datatype loginTypes = UserNamePassword | ClientIdSecret | MicrosoftLogin | Azure

text \<open>
  The helper keeps a login type as a plain string (\<open>connectInternal(loginType: string, ...)\<close>,
  \<open>loginType: logintypeResponse\<close>) and compares it with the enum members in a \<open>switch\<close>.
  A login-type string is therefore either the value of one of the four members (\<open>Listed\<close>), or
  a string that is the value of none of them (\<open>Unlisted\<close>), carried along unchanged.
\<close>

datatype loginTypeString = Listed loginTypes | Unlisted string

text \<open>
  Modelled from the spec: the interface \<open>Token\<close> of utils/Interfaces (TokenResponse: access
  token, optional refresh token). Both fields are read with a non-null assertion in
  \<open>addConnection\<close>, so both may be \<open>undefined\<close>.
\<close>

record Token =
  access_token :: "string option"
  refresh_token :: "string option"

text \<open>
  Modelled from the spec: the interface \<open>IConnection\<close> of utils/Interfaces, with the fields
  the helper reads and writes. An optional field that is \<open>undefined\<close> is \<open>None\<close>.
\<close>

record IConnection =
  environmentUrl :: string
  loginType :: loginTypeString
  userName :: "string option"
  password :: "string option"
  tenantId :: "string option"
  connectionName :: string
  environmentType :: "string option"
  currentAccessToken :: "string option"
  refreshToken :: "string option"

text \<open>
  What an \<open>await\<close>ed call can throw: the \<open>TypeError\<close> of reading a property of
  \<open>undefined\<close>, or the rejection of a login exchange with its reason.
\<close>

datatype error = TypeError | Rejected string

text \<open>JavaScript truthiness of a \<open>string | undefined\<close>: defined and not empty.\<close>

definition truthy :: "string option \<Rightarrow> bool" where
  "truthy v = (case v of None \<Rightarrow> False | Some s \<Rightarrow> s \<noteq> [])"

section \<open>Effects: the two stores and the calls that leave the helper\<close>

text \<open>
  Every call that leaves the helper is recorded, in program order, in a trace: the five
  exchanges of login/login with their arguments (the constant \<open>customDataverseClientId\<close> and
  the callbacks \<open>openUri\<close>, \<open>redirectTimeout\<close> are fixed and left out), the writes to the two
  stores, the error messages shown, the commands executed and the data requests.
\<close>

datatype event =
    LoginWithRefreshToken string string
  | LoginWithUsernamePassword string "string option" "string option"
  | LoginWithClientIdSecret string "string option" "string option" "string option"
  | LoginWithPrompt string
  | LoginWithAzure string
  | SaveInGlobal "IConnection list"
  | UnsetFromGlobal
  | SaveInWorkspace IConnection
  | UnsetFromWorkspace
  | ShowErrorMessage string
  | ExecuteCommand string
  | RequestData string

text \<open>
  Modelled from the spec: the class \<open>State\<close> of utils/State, which is not among the sources
  (two persistent key/value stores with \<open>get(key)\<close>, \<open>set(key, value)\<close>, \<open>unset(key)\<close>).
  \<open>connectionStore\<close> is the global (durable) store under \<open>connectionStoreKey\<close>: the Registry, a
  JSON-encoded list of connections, \<open>None\<close> when the key is absent. \<open>JSON.stringify\<close> of an array
  is never the empty string, so the test \<open>if (jsonConn)\<close> is the test that the key is present,
  and \<open>JSON.parse\<close> gives back the list that was stored.
  \<open>connectionCurrentStore\<close> is the workspace store under \<open>connectionCurrentStoreKey\<close>: the
  Overlay, one connection or nothing. A record read from a store is a value of its own: what the
  helper assigns to its fields reaches the store when the record is saved.
\<close>

record World =
  connectionStore :: "IConnection list option"
  connectionCurrentStore :: "IConnection option"
  trace :: "event list"

definition emit :: "event \<Rightarrow> World \<Rightarrow> World" where
  "emit e w = w\<lparr>trace := trace w @ [e]\<rparr>"

definition getFromGlobal :: "World \<Rightarrow> IConnection list option" where
  "getFromGlobal w = connectionStore w"

definition saveInGlobal :: "IConnection list \<Rightarrow> World \<Rightarrow> World" where
  "saveInGlobal conns w = emit (SaveInGlobal conns) (w\<lparr>connectionStore := Some conns\<rparr>)"

definition unsetFromGlobal :: "World \<Rightarrow> World" where
  "unsetFromGlobal w = emit UnsetFromGlobal (w\<lparr>connectionStore := None\<rparr>)"

definition getFromWorkspace :: "World \<Rightarrow> IConnection option" where
  "getFromWorkspace w = connectionCurrentStore w"

definition saveInWorkspace :: "IConnection \<Rightarrow> World \<Rightarrow> World" where
  "saveInWorkspace conn w = emit (SaveInWorkspace conn) (w\<lparr>connectionCurrentStore := Some conn\<rparr>)"

definition unsetFromWorkspace :: "World \<Rightarrow> World" where
  "unsetFromWorkspace w = emit UnsetFromWorkspace (w\<lparr>connectionCurrentStore := None\<rparr>)"

section \<open>Name resolution and the current token\<close>

text \<open>
  \<open>getConnectionByName\<close>: the Overlay's record when there is one and its name is the target,
  else \<open>conns.find\<close> over the Registry when its key is present, else \<open>undefined\<close>.
\<close>

definition getConnectionByName :: "string \<Rightarrow> World \<Rightarrow> IConnection option" where
  "getConnectionByName connName w =
     (let fromGlobal =
            (case getFromGlobal w of
               Some conns \<Rightarrow> find (\<lambda>c. connectionName c = connName) conns
             | None \<Rightarrow> None)
      in case getFromWorkspace w of
           Some connFromWS \<Rightarrow>
             if connectionName connFromWS = connName then Some connFromWS else fromGlobal
         | None \<Rightarrow> fromGlobal)"

text \<open>
  \<open>getTokenFromCurrentConnection\<close> reads \<open>connFromWS.currentAccessToken\<close> with no test of
  \<open>connFromWS\<close>: on an absent record the property read throws.
\<close>

definition getTokenFromCurrentConnection :: "World \<Rightarrow> error + string option" where
  "getTokenFromCurrentConnection w =
     (case getFromWorkspace w of
        None \<Rightarrow> Inl TypeError
      | Some connFromWS \<Rightarrow> Inr (currentAccessToken connFromWS))"

section \<open>Registry: create and delete\<close>

definition showErrorMessage :: "string \<Rightarrow> World \<Rightarrow> World" where
  "showErrorMessage msg w = emit (ShowErrorMessage msg) w"

definition executeCommand :: "string \<Rightarrow> World \<Rightarrow> World" where
  "executeCommand cmd w = emit (ExecuteCommand cmd) w"

text \<open>
  \<open>saveConnection\<close>: when the name resolves to nothing, the record is pushed onto the parsed
  list (or onto a new list when the key is absent) and the list is written back; otherwise an
  error message is shown. Nothing is returned and nothing is thrown in either branch.
\<close>

definition saveConnection :: "IConnection \<Rightarrow> World \<Rightarrow> World" where
  "saveConnection connDetail w =
     (case getConnectionByName (connectionName connDetail) w of
        None \<Rightarrow>
          (case getFromGlobal w of
             Some conns \<Rightarrow> saveInGlobal (conns @ [connDetail]) w
           | None \<Rightarrow> saveInGlobal [connDetail] w)
      | Some _ \<Rightarrow>
          showErrorMessage
            ''Connection with same name already exists. Please re-create the connection with a different name.''
            w)"

text \<open>
  \<open>conns.indexOf(x, 0)\<close>: the first index holding \<open>x\<close>, or \<open>-1\<close>. The element searched for is
  the one \<open>conns.find\<close> returned, so its index is that of the first record with the name.
\<close>

fun indexOf :: "'a \<Rightarrow> 'a list \<Rightarrow> int \<Rightarrow> int" where
  "indexOf x [] i = - 1"
| "indexOf x (y # ys) i = (if y = x then i else indexOf x ys (i + 1))"

text \<open>\<open>conns.splice(i, 1)\<close> for an index within the list.\<close>

definition splice1 :: "'a list \<Rightarrow> nat \<Rightarrow> 'a list" where
  "splice1 xs i = take i xs @ drop (Suc i) xs"

definition removeConnectionInternal :: "string \<Rightarrow> World \<Rightarrow> World" where
  "removeConnectionInternal connName w =
     (case getFromGlobal w of
        None \<Rightarrow> w
      | Some conns \<Rightarrow>
          (let resultConn = find (\<lambda>c. connectionName c = connName) conns;
               indexConnToRemove =
                 (case resultConn of None \<Rightarrow> - 1 | Some c \<Rightarrow> indexOf c conns 0);
               conns' = (if indexConnToRemove > - 1
                         then splice1 conns (nat indexConnToRemove) else conns)
           in if length conns' > 0 then saveInGlobal conns' w else unsetFromGlobal w))"

text \<open>
  \<open>removeConnection\<close>: the confirmation gate. \<open>respDeleteConfirm\<close> is what the modal warning
  returned: \<open>"Yes"\<close>, \<open>"No"\<close>, or \<open>undefined\<close> when it was dismissed.
\<close>

definition removeConnection :: "string option \<Rightarrow> string \<Rightarrow> World \<Rightarrow> World" where
  "removeConnection respDeleteConfirm connName w =
     (if respDeleteConfirm = Some ''Yes'' then removeConnectionInternal connName w else w)"

section \<open>Authentication\<close>

text \<open>
  The five exchanges of login/login are not among the sources; they are parameters. Each is an
  awaited call: it throws (\<open>Inl\<close>) or returns. The four scheme strategies return a \<open>Token\<close>
  (\<open>connectInternal\<close> is declared to return \<open>Promise<Token>\<close>); the refresh exchange is
  assigned to a \<open>Token | undefined\<close> and tested, so it may return \<open>undefined\<close>.
  \<open>upnOfAccessToken\<close> stands for the decoding of the token's payload segment
  (\<open>JSON.parse(Buffer.from(...split('.')[1], 'base64').toString())?.upn\<close>), which throws on a
  malformed token. \<open>reservedWords\<close> is the list of utils/Constants.
\<close>

record Ext =
  reservedWords :: "string list"
  loginWithRefreshToken :: "string \<Rightarrow> string \<Rightarrow> error + Token option"
  loginWithUsernamePassword :: "string \<Rightarrow> string option \<Rightarrow> string option \<Rightarrow> error + Token"
  loginWithClientIdSecret ::
    "string \<Rightarrow> string option \<Rightarrow> string option \<Rightarrow> string option \<Rightarrow> error + Token"
  loginWithPrompt :: "string \<Rightarrow> error + Token"
  loginWithAzure :: "string \<Rightarrow> error + Token"
  upnOfAccessToken :: "string \<Rightarrow> error + string option"

text \<open>
  \<open>connectInternal\<close>: the dispatch on the login type, with \<open>default:\<close> on the
  \<open>MicrosoftLogin\<close> case.
\<close>

definition connectInternal ::
  "Ext \<Rightarrow> loginTypeString \<Rightarrow> IConnection \<Rightarrow> World \<Rightarrow> (error + Token) \<times> World" where
  "connectInternal x lt conn w =
     (case lt of
        Listed UserNamePassword \<Rightarrow>
          (loginWithUsernamePassword x (environmentUrl conn) (userName conn) (password conn),
           emit (LoginWithUsernamePassword (environmentUrl conn) (userName conn) (password conn)) w)
      | Listed ClientIdSecret \<Rightarrow>
          (loginWithClientIdSecret x (environmentUrl conn) (userName conn) (password conn)
             (tenantId conn),
           emit (LoginWithClientIdSecret (environmentUrl conn) (userName conn) (password conn)
                   (tenantId conn)) w)
      | Listed Azure \<Rightarrow>
          (loginWithAzure x (environmentUrl conn), emit (LoginWithAzure (environmentUrl conn)) w)
      | _ \<Rightarrow>
          (loginWithPrompt x (environmentUrl conn), emit (LoginWithPrompt (environmentUrl conn)) w))"

text \<open>
  \<open>reAuthenticate\<close>. The record is mutated in place; the model returns it beside the result.
  An exchange that throws ends the call there: nothing after it runs. The second \<open>switch\<close> has
  no \<open>default:\<close>, so a login type that is none of the four leaves \<open>tokenResponse\<close> undefined.
\<close>

definition reAuthenticate ::
  "Ext \<Rightarrow> IConnection \<Rightarrow> World \<Rightarrow> (error + Token option) \<times> IConnection \<times> World" where
  "reAuthenticate x currentConnection w =
     (let url = environmentUrl currentConnection;
          (refreshed, w1) =
            (case refreshToken currentConnection of
               Some tok \<Rightarrow>
                 if tok \<noteq> []
                 then (loginWithRefreshToken x url tok, emit (LoginWithRefreshToken url tok) w)
                 else (Inr None, w)
             | None \<Rightarrow> (Inr None, w))
      in case refreshed of
           Inl err \<Rightarrow> (Inl err, currentConnection, w1)
         | Inr tokenResponse1 \<Rightarrow>
             (let (fellBack, w2) =
                    (case tokenResponse1 of
                       Some t \<Rightarrow> (Inr (Some t), w1)
                     | None \<Rightarrow>
                         (case loginType currentConnection of
                            Listed UserNamePassword \<Rightarrow>
                              (map_sum id Some
                                 (loginWithUsernamePassword x url (userName currentConnection)
                                    (password currentConnection)),
                               emit (LoginWithUsernamePassword url (userName currentConnection)
                                       (password currentConnection)) w1)
                          | Listed ClientIdSecret \<Rightarrow>
                              (map_sum id Some
                                 (loginWithClientIdSecret x url (userName currentConnection)
                                    (password currentConnection) (tenantId currentConnection)),
                               emit (LoginWithClientIdSecret url (userName currentConnection)
                                       (password currentConnection) (tenantId currentConnection)) w1)
                          | Listed MicrosoftLogin \<Rightarrow>
                              (map_sum id Some (loginWithPrompt x url), emit (LoginWithPrompt url) w1)
                          | Listed Azure \<Rightarrow>
                              (map_sum id Some (loginWithAzure x url), emit (LoginWithAzure url) w1)
                          | Unlisted _ \<Rightarrow> (Inr None, w1)))
              in case fellBack of
                   Inl err \<Rightarrow> (Inl err, currentConnection, w2)
                 | Inr tokenResponse \<Rightarrow>
                     (let conn' =
                            (case tokenResponse of
                               Some t \<Rightarrow> currentConnection
                                 \<lparr>currentAccessToken := access_token t,
                                  refreshToken := refresh_token t\<rparr>
                             | None \<Rightarrow> currentConnection)
                      in (Inr tokenResponse, conn', saveInWorkspace conn' w2))))"

section \<open>The creation wizard, create and connect\<close>

text \<open>
  What the user answers to the prompts of the wizard, in the variables that receive the answers:
  \<open>showInputBox\<close> and \<open>showQuickPick\<close> return \<open>undefined\<close> when dismissed. The user-name and
  client-id prompts both fill \<open>usernameUserResponse\<close>, the password and client-secret prompts
  \<open>passwordUserResponse\<close>; a run asks at most one of each pair.
\<close>

record Responses =
  envUrlUserResponse :: "string option"
  logintypeResponse :: "loginTypeString option"
  usernameUserResponse :: "string option"
  passwordUserResponse :: "string option"
  tenantIdResponse :: "string option"
  connNameUserResponse :: "string option"
  typeResponse :: "string option"

text \<open>
  The statements of \<open>connectionWizard\<close> after the \<open>switch\<close>: the name prompt with its two
  checks, the environment-type prompt, the draft record, \<open>saveConnection\<close>, and
  \<open>return conn\<close>. The messages of utils/ErrorMessages are named by their constant.
\<close>

definition connectionWizardName ::
  "Ext \<Rightarrow> Responses \<Rightarrow> string \<Rightarrow> loginTypeString \<Rightarrow> string option \<Rightarrow> string option
     \<Rightarrow> string option \<Rightarrow> World \<Rightarrow> IConnection option \<times> World" where
  "connectionWizardName x r envUrl lt usr pwd tid w =
     (case connNameUserResponse r of
        None \<Rightarrow> (None, showErrorMessage ''connNameRequired'' w)
      | Some connName \<Rightarrow>
          if connName \<noteq> [] \<and> connName \<in> set (reservedWords x)
          then (None, showErrorMessage ''connNameReservedWords'' w)
          else if connName = [] then (None, showErrorMessage ''connNameRequired'' w)
          else
            (let conn = \<lparr>environmentUrl = envUrl, loginType = lt, userName = usr,
                         password = pwd, tenantId = tid, connectionName = connName,
                         environmentType = (if truthy (typeResponse r) then typeResponse r else None),
                         currentAccessToken = None, refreshToken = None\<rparr>
             in (Some conn, saveConnection conn w)))"

text \<open>
  \<open>connectionWizard\<close>: the URL prompt, the login-type pick (\<open>?? ''\<close> on a dismissed pick; the
  empty string is none of the four members), and the \<open>switch\<close> with \<open>default:\<close> on the
  \<open>MicrosoftLogin\<close> case.
\<close>

definition connectionWizard :: "Ext \<Rightarrow> Responses \<Rightarrow> World \<Rightarrow> IConnection option \<times> World" where
  "connectionWizard x r w =
     (case envUrlUserResponse r of
        None \<Rightarrow> (None, showErrorMessage ''dataverseEnvironmentUrlRequired'' w)
      | Some envUrl \<Rightarrow>
          if envUrl = [] then (None, showErrorMessage ''dataverseEnvironmentUrlRequired'' w)
          else
            (let selectedLogin = (case logintypeResponse r of Some l \<Rightarrow> l | None \<Rightarrow> Unlisted [])
             in case selectedLogin of
                  Listed UserNamePassword \<Rightarrow>
                    if \<not> truthy (usernameUserResponse r)
                    then (None, showErrorMessage ''usernameRequired'' w)
                    else if \<not> truthy (passwordUserResponse r)
                    then (None, showErrorMessage ''passwordRequired'' w)
                    else connectionWizardName x r envUrl selectedLogin (usernameUserResponse r)
                           (passwordUserResponse r) None w
                | Listed ClientIdSecret \<Rightarrow>
                    if \<not> truthy (usernameUserResponse r)
                    then (None, showErrorMessage ''clientIdRequired'' w)
                    else if \<not> truthy (passwordUserResponse r)
                    then (None, showErrorMessage ''clientSecretRequired'' w)
                    else if \<not> truthy (tenantIdResponse r)
                    then (None, showErrorMessage ''tenantIdRequired'' w)
                    else connectionWizardName x r envUrl selectedLogin (usernameUserResponse r)
                           (passwordUserResponse r) (tenantIdResponse r) w
                | Listed Azure \<Rightarrow>
                    connectionWizardName x r envUrl (Listed Azure) None None None w
                | _ \<Rightarrow>
                    connectionWizardName x r envUrl (Listed MicrosoftLogin) None None None w))"

text \<open>
  The data reload after a connect. \<open>getEntityDefinitions\<close> and \<open>getWebResources\<close> go through
  helpers/requestHelper, which is not among the sources: the request and the command are
  recorded, the response (stored under keys of its own) is not modelled.
\<close>

definition getEntityDefinitions :: "World \<Rightarrow> World" where
  "getEntityDefinitions w =
     executeCommand ''dvdt.explorer.entities.loadEntities'' (emit (RequestData ''EntityDefinitions'') w)"

definition getWebResources :: "World \<Rightarrow> World" where
  "getWebResources w =
     executeCommand ''dvdt.explorer.webresources.loadWebResources''
       (emit (RequestData ''webresourceset'') w)"

definition reloadWorkspaceConnection :: "World \<Rightarrow> World" where
  "reloadWorkspaceConnection w =
     (case getFromWorkspace w of
        Some connFromWS \<Rightarrow> getWebResources (getEntityDefinitions w)
      | None \<Rightarrow> w)"

text \<open>
  \<open>addConnection\<close>: the wizard, then inside \<open>try\<close> the authentication and the write to the
  Overlay; \<open>catch (err) { throw err; }\<close> rethrows and \<open>finally\<close> runs in both cases. The
  returned \<open>conn\<close> is the object the \<open>try\<close> block mutated.
\<close>

definition addConnection ::
  "Ext \<Rightarrow> Responses \<Rightarrow> World \<Rightarrow> (error + IConnection option) \<times> World" where
  "addConnection x r w =
     (let (conn, w1) = connectionWizard x r w;
          (tried, w2) =
            (case conn of
               None \<Rightarrow> (Inr None, w1)
             | Some c \<Rightarrow>
                 (case connectInternal x (loginType c) c w1 of
                    (Inl err, w') \<Rightarrow> (Inl err, w')
                  | (Inr tokenResponse, w') \<Rightarrow>
                      (let c' = c\<lparr>currentAccessToken := access_token tokenResponse,
                                  refreshToken := refresh_token tokenResponse\<rparr>
                       in (Inr (Some c'), saveInWorkspace c' w'))))
      in (tried,
          reloadWorkspaceConnection
            (executeCommand ''dvdt.explorer.connections.refreshConnection'' w2)))"

text \<open>
  \<open>connectToDataverse\<close>. The \<open>try\<close> block resolves the name and, for a record found, returns
  the thenable of \<open>withProgress\<close> without awaiting it: the block has ended when the task runs,
  so \<open>catch (err) { }\<close> sees only what the synchronous part throws (nothing, in this model), and
  the promise of \<open>connectToDataverse\<close> settles as the task does. \<open>withProgress\<close> returns the
  thenable its task returned; the progress reports are left out.
\<close>

definition connectToDataverse ::
  "Ext \<Rightarrow> string \<Rightarrow> World \<Rightarrow> (error + IConnection option) \<times> World" where
  "connectToDataverse x label w =
     (case getConnectionByName label w of
        None \<Rightarrow> (Inr None, w)
      | Some conn \<Rightarrow>
          (case connectInternal x (loginType conn) conn w of
             (Inl err, w1) \<Rightarrow> (Inl err, w1)
           | (Inr tokenResponse, w1) \<Rightarrow>
               (let conn1 = conn\<lparr>currentAccessToken := access_token tokenResponse\<rparr>;
                    named =
                      (case access_token tokenResponse of
                         None \<Rightarrow> Inr conn1
                       | Some tok \<Rightarrow>
                           if tok = [] then Inr conn1
                           else (case upnOfAccessToken x tok of
                                   Inl err \<Rightarrow> Inl err
                                 | Inr upn \<Rightarrow> Inr (conn1\<lparr>userName := upn\<rparr>)))
                in case named of
                     Inl err \<Rightarrow> (Inl err, w1)
                   | Inr conn2 \<Rightarrow>
                       (let conn3 = conn2\<lparr>refreshToken := refresh_token tokenResponse\<rparr>
                        in (Inr (Some conn3),
                            executeCommand ''dvdt.explorer.connections.refreshConnection''
                              (getWebResources
                                 (getEntityDefinitions (saveInWorkspace conn3 w1))))))))"

section \<open>Vocabulary of the properties\<close>

text \<open>The events a call appended to the trace: those of \<open>w'\<close> after those of \<open>w\<close>.\<close>

definition since :: "World \<Rightarrow> World \<Rightarrow> event list" where
  "since w w' = drop (length (trace w)) (trace w')"

definition emitAll :: "event list \<Rightarrow> World \<Rightarrow> World" where
  "emitAll es w = w\<lparr>trace := trace w @ es\<rparr>"

fun isRefreshCall :: "event \<Rightarrow> bool" where
  "isRefreshCall (LoginWithRefreshToken _ _) = True"
| "isRefreshCall _ = False"

fun isStrategyCall :: "event \<Rightarrow> bool" where
  "isStrategyCall (LoginWithUsernamePassword _ _ _) = True"
| "isStrategyCall (LoginWithClientIdSecret _ _ _ _) = True"
| "isStrategyCall (LoginWithPrompt _) = True"
| "isStrategyCall (LoginWithAzure _) = True"
| "isStrategyCall _ = False"

text \<open>
  The original scheme of a record with a listed login type: the call it makes, and the
  exchange it stands for, with the credentials stored in the record.
\<close>

fun strategyCall :: "loginTypes \<Rightarrow> IConnection \<Rightarrow> event" where
  "strategyCall UserNamePassword c =
     LoginWithUsernamePassword (environmentUrl c) (userName c) (password c)"
| "strategyCall ClientIdSecret c =
     LoginWithClientIdSecret (environmentUrl c) (userName c) (password c) (tenantId c)"
| "strategyCall MicrosoftLogin c = LoginWithPrompt (environmentUrl c)"
| "strategyCall Azure c = LoginWithAzure (environmentUrl c)"

fun strategyExchange :: "Ext \<Rightarrow> loginTypes \<Rightarrow> IConnection \<Rightarrow> error + Token" where
  "strategyExchange x UserNamePassword c =
     loginWithUsernamePassword x (environmentUrl c) (userName c) (password c)"
| "strategyExchange x ClientIdSecret c =
     loginWithClientIdSecret x (environmentUrl c) (userName c) (password c) (tenantId c)"
| "strategyExchange x MicrosoftLogin c = loginWithPrompt x (environmentUrl c)"
| "strategyExchange x Azure c = loginWithAzure x (environmentUrl c)"

text \<open>
  The refresh attempt of a record: the call it makes when \<open>refreshToken\<close> is set (truthy), and
  what the exchange answers; \<open>None\<close> when no attempt is made.
\<close>

definition refreshCalls :: "IConnection \<Rightarrow> event list" where
  "refreshCalls c =
     (case refreshToken c of
        Some tok \<Rightarrow> if tok \<noteq> [] then [LoginWithRefreshToken (environmentUrl c) tok] else []
      | None \<Rightarrow> [])"

definition refreshExchange :: "Ext \<Rightarrow> IConnection \<Rightarrow> (error + Token option) option" where
  "refreshExchange x c =
     (case refreshToken c of
        Some tok \<Rightarrow>
          if tok \<noteq> [] then Some (loginWithRefreshToken x (environmentUrl c) tok) else None
      | None \<Rightarrow> None)"

text \<open>The token each of the two paths yields for a record, if any.\<close>

definition refreshPathToken :: "Ext \<Rightarrow> IConnection \<Rightarrow> Token option" where
  "refreshPathToken x c =
     (case refreshExchange x c of Some (Inr (Some t)) \<Rightarrow> Some t | _ \<Rightarrow> None)"

definition fallbackPathToken :: "Ext \<Rightarrow> IConnection \<Rightarrow> Token option" where
  "fallbackPathToken x c =
     (case loginType c of
        Listed lt \<Rightarrow> (case strategyExchange x lt c of Inr t \<Rightarrow> Some t | Inl _ \<Rightarrow> None)
      | Unlisted _ \<Rightarrow> None)"



section \<open>Concrete runs\<close>

text \<open>
  Two sets of exchanges: one that grants (the refresh exchange answers the token
  \<open>refresh-0\<close> with an access token and no new refresh token, and any other token with
  nothing), one that refuses (the refresh exchange throws on \<open>refresh-0\<close> and answers nothing
  otherwise; every scheme strategy throws).
\<close>

definition orgUrl :: string where
  "orgUrl = ''https://org.example.com''"

definition freshToken :: Token where
  "freshToken = \<lparr>access_token = Some ''access-1'', refresh_token = Some ''refresh-1''\<rparr>"

definition accessOnlyToken :: Token where
  "accessOnlyToken = \<lparr>access_token = Some ''access-2'', refresh_token = None\<rparr>"

definition extGranting :: Ext where
  "extGranting =
     \<lparr>reservedWords = [''connections''],
      loginWithRefreshToken =
        (\<lambda>url tok. if tok = ''refresh-0'' then Inr (Some accessOnlyToken) else Inr None),
      loginWithUsernamePassword = (\<lambda>url usr pwd. Inr freshToken),
      loginWithClientIdSecret = (\<lambda>url usr pwd tid. Inr freshToken),
      loginWithPrompt = (\<lambda>url. Inr freshToken),
      loginWithAzure = (\<lambda>url. Inr freshToken),
      upnOfAccessToken = (\<lambda>tok. Inr (Some ''u@org.example.com''))\<rparr>"

definition extRefusing :: Ext where
  "extRefusing =
     \<lparr>reservedWords = [''connections''],
      loginWithRefreshToken =
        (\<lambda>url tok. if tok = ''refresh-0'' then Inl (Rejected ''network'') else Inr None),
      loginWithUsernamePassword = (\<lambda>url usr pwd. Inl (Rejected ''invalid_grant'')),
      loginWithClientIdSecret = (\<lambda>url usr pwd tid. Inl (Rejected ''invalid_grant'')),
      loginWithPrompt = (\<lambda>url. Inl (Rejected ''invalid_grant'')),
      loginWithAzure = (\<lambda>url. Inl (Rejected ''invalid_grant'')),
      upnOfAccessToken = (\<lambda>tok. Inr None)\<rparr>"

text \<open>
  The refusing exchanges with a password exchange that would grant: the refresh exchange still
  throws on \<open>refresh-0\<close>.
\<close>

definition extRefreshDown :: Ext where
  "extRefreshDown = extRefusing\<lparr>loginWithUsernamePassword := (\<lambda>url usr pwd. Inr freshToken)\<rparr>"

definition devRecord :: IConnection where
  "devRecord =
     \<lparr>environmentUrl = orgUrl, loginType = Listed UserNamePassword, userName = Some ''u'',
      password = Some ''p'', tenantId = None, connectionName = ''dev'', environmentType = None,
      currentAccessToken = Some ''access-0'', refreshToken = Some ''refresh-0''\<rparr>"

definition staleRecord :: IConnection where
  "staleRecord = devRecord\<lparr>refreshToken := Some ''stale''\<rparr>"

definition legacyRecord :: IConnection where
  "legacyRecord = devRecord\<lparr>loginType := Unlisted ''Legacy'', refreshToken := None\<rparr>"

definition testRecord :: IConnection where
  "testRecord = devRecord\<lparr>connectionName := ''test''\<rparr>"

definition emptyWorld :: World where
  "emptyWorld = \<lparr>connectionStore = None, connectionCurrentStore = None, trace = []\<rparr>"

definition devWorld :: World where
  "devWorld = \<lparr>connectionStore = Some [devRecord], connectionCurrentStore = None, trace = []\<rparr>"

definition shadowWorld :: World where
  "shadowWorld =
     \<lparr>connectionStore = Some [testRecord, devRecord],
      connectionCurrentStore = Some staleRecord, trace = []\<rparr>"

definition azurePick :: Responses where
  "azurePick =
     \<lparr>envUrlUserResponse = Some orgUrl, logintypeResponse = Some (Listed Azure),
      usernameUserResponse = None, passwordUserResponse = None, tenantIdResponse = None,
      connNameUserResponse = Some ''dev'', typeResponse = None\<rparr>"

definition dismissedPick :: Responses where
  "dismissedPick = azurePick\<lparr>logintypeResponse := None\<rparr>"

definition azureDraft :: IConnection where
  "azureDraft =
     \<lparr>environmentUrl = orgUrl, loginType = Listed Azure, userName = None,
      password = None, tenantId = None, connectionName = ''dev'', environmentType = None,
      currentAccessToken = None, refreshToken = None\<rparr>"

definition azureConnected :: IConnection where
  "azureConnected =
     azureDraft\<lparr>currentAccessToken := Some ''access-1'', refreshToken := Some ''refresh-1''\<rparr>"

definition reloadEvents :: "event list" where
  "reloadEvents =
     [ExecuteCommand ''dvdt.explorer.connections.refreshConnection'',
      RequestData ''EntityDefinitions'', ExecuteCommand ''dvdt.explorer.entities.loadEntities'',
      RequestData ''webresourceset'',
      ExecuteCommand ''dvdt.explorer.webresources.loadWebResources'']"

section \<open>Auxiliary facts\<close>

lemmas world_defs = saveInWorkspace_def saveInGlobal_def unsetFromGlobal_def emit_def
  showErrorMessage_def executeCommand_def getFromGlobal_def getFromWorkspace_def

lemmas example_defs = orgUrl_def freshToken_def accessOnlyToken_def extGranting_def
  extRefusing_def extRefreshDown_def devRecord_def staleRecord_def legacyRecord_def testRecord_def
  emptyWorld_def
  devWorld_def shadowWorld_def azurePick_def dismissedPick_def azureDraft_def azureConnected_def
  reloadEvents_def

lemmas flow_defs = reAuthenticate_def connectInternal_def connectionWizard_def
  connectionWizardName_def saveConnection_def getConnectionByName_def addConnection_def
  connectToDataverse_def reloadWorkspaceConnection_def getEntityDefinitions_def
  getWebResources_def removeConnection_def removeConnectionInternal_def splice1_def
  getTokenFromCurrentConnection_def truthy_def Let_def

subsection \<open>Lists\<close>

lemma find_first_match:
  "\<forall>x\<in>set pre. \<not> P x \<Longrightarrow> P r \<Longrightarrow> find P (pre @ r # post) = Some r"
  by (induction pre) auto

lemma find_no_match: "\<forall>x\<in>set xs. \<not> P x \<Longrightarrow> find P xs = None"
  by (induction xs) auto

lemma indexOf_first:
  "\<forall>x\<in>set pre. x \<noteq> r \<Longrightarrow> indexOf r (pre @ r # post) i = i + int (length pre)"
  by (induction pre arbitrary: i) auto

lemma splice1_middle: "splice1 (pre @ r # post) (length pre) = pre @ post"
  by (simp add: splice1_def)

subsection \<open>Delete\<close>

lemma removeConnectionInternal_first:
  assumes "connectionStore w = Some (pre @ r # post)" "connectionName r = n"
    "\<forall>x\<in>set pre. connectionName x \<noteq> n"
  shows "connectionStore (removeConnectionInternal n w) =
           (if pre @ post = [] then None else Some (pre @ post))"
proof -
  have found: "find (\<lambda>c. connectionName c = n) (pre @ r # post) = Some r"
    using assms by (simp add: find_first_match)
  have "\<forall>x\<in>set pre. x \<noteq> r" using assms by auto
  then have at: "indexOf r (pre @ r # post) 0 = int (length pre)"
    by (simp add: indexOf_first)
  show ?thesis
    using assms(1) found at
    by (simp add: removeConnectionInternal_def getFromGlobal_def splice1_middle
          saveInGlobal_def unsetFromGlobal_def emit_def)
qed

lemma removeConnectionInternal_never_empty_list:
  "connectionStore (removeConnectionInternal n w) \<noteq> Some []"
  by (auto simp: removeConnectionInternal_def getFromGlobal_def Let_def
        saveInGlobal_def unsetFromGlobal_def emit_def split: option.splits)

subsection \<open>The five ways a reauthentication runs\<close>

lemma reAuthenticate_refresh_throws:
  "refreshExchange x c = Some (Inl err) \<Longrightarrow>
   reAuthenticate x c w = (Inl err, c, emitAll (refreshCalls c) w)"
  by (auto simp: reAuthenticate_def refreshExchange_def refreshCalls_def emitAll_def emit_def Let_def
        split: option.splits if_splits)

lemma reAuthenticate_refresh_token:
  "refreshExchange x c = Some (Inr (Some t)) \<Longrightarrow>
   reAuthenticate x c w =
     (Inr (Some t), c\<lparr>currentAccessToken := access_token t, refreshToken := refresh_token t\<rparr>,
      saveInWorkspace (c\<lparr>currentAccessToken := access_token t, refreshToken := refresh_token t\<rparr>)
        (emitAll (refreshCalls c) w))"
  by (auto simp: reAuthenticate_def refreshExchange_def refreshCalls_def emitAll_def emit_def Let_def
        split: option.splits if_splits)

lemma reAuthenticate_unlisted:
  "refreshExchange x c = None \<or> refreshExchange x c = Some (Inr None) \<Longrightarrow>
   loginType c = Unlisted s \<Longrightarrow>
   reAuthenticate x c w = (Inr None, c, saveInWorkspace c (emitAll (refreshCalls c) w))"
  by (auto simp: reAuthenticate_def refreshExchange_def refreshCalls_def emitAll_def emit_def Let_def
        split: option.splits if_splits)

lemma reAuthenticate_fallback_throws:
  "refreshExchange x c = None \<or> refreshExchange x c = Some (Inr None) \<Longrightarrow>
   loginType c = Listed lt \<Longrightarrow> strategyExchange x lt c = Inl err \<Longrightarrow>
   reAuthenticate x c w = (Inl err, c, emitAll (refreshCalls c @ [strategyCall lt c]) w)"
  by (cases lt)
     (auto simp: reAuthenticate_def refreshExchange_def refreshCalls_def emitAll_def emit_def Let_def
        split: option.splits if_splits)

lemma reAuthenticate_fallback_token:
  "refreshExchange x c = None \<or> refreshExchange x c = Some (Inr None) \<Longrightarrow>
   loginType c = Listed lt \<Longrightarrow> strategyExchange x lt c = Inr t \<Longrightarrow>
   reAuthenticate x c w =
     (Inr (Some t), c\<lparr>currentAccessToken := access_token t, refreshToken := refresh_token t\<rparr>,
      saveInWorkspace (c\<lparr>currentAccessToken := access_token t, refreshToken := refresh_token t\<rparr>)
        (emitAll (refreshCalls c @ [strategyCall lt c]) w))"
  by (cases lt)
     (auto simp: reAuthenticate_def refreshExchange_def refreshCalls_def emitAll_def emit_def Let_def
        split: option.splits if_splits)

lemma refreshExchange_cases:
  obtains (absent) "refreshExchange x c = None"
  | (threw) err where "refreshExchange x c = Some (Inl err)"
  | (empty) "refreshExchange x c = Some (Inr None)"
  | (token) t where "refreshExchange x c = Some (Inr (Some t))"
  by (metis option.exhaust sumE)

lemma reAuthenticate_cases:
  obtains
    (refresh_throws) err where
      "refreshExchange x c = Some (Inl err)"
      "reAuthenticate x c w = (Inl err, c, emitAll (refreshCalls c) w)"
  | (refresh_token) t where
      "refreshExchange x c = Some (Inr (Some t))"
      "reAuthenticate x c w =
         (Inr (Some t), c\<lparr>currentAccessToken := access_token t, refreshToken := refresh_token t\<rparr>,
          saveInWorkspace
            (c\<lparr>currentAccessToken := access_token t, refreshToken := refresh_token t\<rparr>)
            (emitAll (refreshCalls c) w))"
  | (unlisted) s where
      "refreshExchange x c = None \<or> refreshExchange x c = Some (Inr None)"
      "loginType c = Unlisted s"
      "reAuthenticate x c w = (Inr None, c, saveInWorkspace c (emitAll (refreshCalls c) w))"
  | (fallback_throws) lt err where
      "refreshExchange x c = None \<or> refreshExchange x c = Some (Inr None)"
      "loginType c = Listed lt" "strategyExchange x lt c = Inl err"
      "reAuthenticate x c w = (Inl err, c, emitAll (refreshCalls c @ [strategyCall lt c]) w)"
  | (fallback_token) lt t where
      "refreshExchange x c = None \<or> refreshExchange x c = Some (Inr None)"
      "loginType c = Listed lt" "strategyExchange x lt c = Inr t"
      "reAuthenticate x c w =
         (Inr (Some t), c\<lparr>currentAccessToken := access_token t, refreshToken := refresh_token t\<rparr>,
          saveInWorkspace
            (c\<lparr>currentAccessToken := access_token t, refreshToken := refresh_token t\<rparr>)
            (emitAll (refreshCalls c @ [strategyCall lt c]) w))"
proof (cases x c rule: refreshExchange_cases)
  case (threw err)
  then show ?thesis using refresh_throws reAuthenticate_refresh_throws by blast
next
  case (token t)
  then show ?thesis using refresh_token reAuthenticate_refresh_token by blast
next
  case absent
  then have no: "refreshExchange x c = None \<or> refreshExchange x c = Some (Inr None)" by simp
  show ?thesis
  proof (cases "loginType c")
    case (Unlisted s)
    then show ?thesis using no unlisted reAuthenticate_unlisted by blast
  next
    case (Listed lt)
    then show ?thesis
      using no fallback_throws fallback_token
        reAuthenticate_fallback_throws reAuthenticate_fallback_token
      by (cases "strategyExchange x lt c") blast+
  qed
next
  case empty
  then have no: "refreshExchange x c = None \<or> refreshExchange x c = Some (Inr None)" by simp
  show ?thesis
  proof (cases "loginType c")
    case (Unlisted s)
    then show ?thesis using no unlisted reAuthenticate_unlisted by blast
  next
    case (Listed lt)
    then show ?thesis
      using no fallback_throws fallback_token
        reAuthenticate_fallback_throws reAuthenticate_fallback_token
      by (cases "strategyExchange x lt c") blast+
  qed
qed

text \<open>
  The call ends with a token exactly when the refresh path yields one, or the refresh exchange
  did not throw and the fallback path yields one.
\<close>

lemma reAuthenticate_token_iff:
  "(\<exists>t. fst (reAuthenticate x c w) = Inr (Some t)) \<longleftrightarrow>
   \<not> (refreshPathToken x c = None
      \<and> ((\<exists>err. refreshExchange x c = Some (Inl err)) \<or> fallbackPathToken x c = None))"
  by (cases x c w rule: reAuthenticate_cases)
     (auto simp: refreshPathToken_def fallbackPathToken_def)

subsection \<open>Traces\<close>

lemma since_emitAll: "since w (emitAll es w) = es"
  by (simp add: since_def emitAll_def)

lemma since_save_emitAll: "since w (saveInWorkspace c' (emitAll es w)) = es @ [SaveInWorkspace c']"
  by (simp add: since_def emitAll_def saveInWorkspace_def emit_def)



lemma filter_refreshCalls:
  "filter isRefreshCall (refreshCalls c) = refreshCalls c"
  "filter isStrategyCall (refreshCalls c) = []"
  by (auto simp: refreshCalls_def split: option.splits)

lemma strategyCall_kind: "isStrategyCall (strategyCall lt c)" "\<not> isRefreshCall (strategyCall lt c)"
  by (cases lt; simp)+












subsection \<open>The wizard\<close>

lemma connectionWizardName_loginType:
  "connectionWizardName x r envUrl lt usr pwd tid w = (Some conn, w') \<Longrightarrow> loginType conn = lt"
  by (auto simp: connectionWizardName_def Let_def split: option.splits if_splits)

lemma connectionWizardName_succeeds:
  "connNameUserResponse r = Some n \<Longrightarrow> n \<noteq> [] \<Longrightarrow> n \<notin> set (reservedWords x) \<Longrightarrow>
   fst (connectionWizardName x r envUrl lt usr pwd tid w) \<noteq> None"
  by (auto simp: connectionWizardName_def Let_def)

section \<open>The claims\<close>

subsection \<open>Reauthentication\<close>

text \<open>
  Claim C1, as stated: for every record, the original-scheme strategy is invoked if and only
  if the refresh attempt produced no token response (or no refresh token was present). It fails
  on two runs. A record whose login type is none of the four members and that holds no refresh
  token: no token response, and no strategy is invoked (the \<open>switch\<close> has no \<open>default:\<close>). A
  record with a refresh token whose exchange throws: no token response, the error leaves
  \<open>reAuthenticate\<close> and no strategy is invoked.
\<close>

theorem reAuthenticate_fallback_counterexample:
  "(refreshExchange extGranting legacyRecord = None
      \<and> fst (reAuthenticate extGranting legacyRecord emptyWorld) = Inr None
      \<and> filter isStrategyCall
           (since emptyWorld (snd (snd (reAuthenticate extGranting legacyRecord emptyWorld)))) = [])
   \<and> (refreshExchange extRefusing devRecord = Some (Inl (Rejected ''network''))
      \<and> fst (reAuthenticate extRefusing devRecord emptyWorld) = Inl (Rejected ''network'')
      \<and> filter isStrategyCall
           (since emptyWorld (snd (snd (reAuthenticate extRefusing devRecord emptyWorld)))) = [])"
  by (simp add: example_defs flow_defs world_defs refreshExchange_def since_def)

text \<open>
  Claim C1, amended. For every record, the refresh exchange is called exactly when
  \<open>refreshToken\<close> is set, once, as the first call of the run; when it returns a token
  response, or throws, no scheme strategy is called, and when it throws, the error it threw is
  the outcome of \<open>reAuthenticate\<close>. For every record whose login type is one of the four
  members, when no refresh attempt was made or the attempt returned without a token response,
  the strategy of the record's login type is called, exactly once.
\<close>

theorem reAuthenticate_refresh_then_fallback:
  "(case reAuthenticate x c w of (res, c', w') \<Rightarrow>
      filter isRefreshCall (since w w') = refreshCalls c
    \<and> take (length (refreshCalls c)) (since w w') = refreshCalls c
    \<and> ((\<exists>t. refreshExchange x c = Some (Inr (Some t))) \<or> (\<exists>err. refreshExchange x c = Some (Inl err))
         \<longrightarrow> filter isStrategyCall (since w w') = [])
    \<and> (refreshExchange x c = Some (Inl err) \<longrightarrow> res = Inl err)
    \<and> (loginType c = Listed lt
         \<and> (refreshExchange x c = None \<or> refreshExchange x c = Some (Inr None))
         \<longrightarrow> filter isStrategyCall (since w w') = [strategyCall lt c]))"
  by (cases x c w rule: reAuthenticate_cases)
     (auto simp: since_emitAll since_save_emitAll filter_refreshCalls strategyCall_kind)

text \<open>
  Two runs of it. The stored refresh token is answered with nothing, and the password exchange
  is called once with the stored user name and password. The refresh exchange throws: its error
  is the outcome and no strategy is called.
\<close>

theorem reAuthenticate_refresh_then_fallback_witness:
  "loginType staleRecord = Listed UserNamePassword
   \<and> refreshExchange extGranting staleRecord = Some (Inr None)
   \<and> filter isRefreshCall
        (since emptyWorld (snd (snd (reAuthenticate extGranting staleRecord emptyWorld))))
      = [LoginWithRefreshToken orgUrl ''stale'']
   \<and> filter isStrategyCall
        (since emptyWorld (snd (snd (reAuthenticate extGranting staleRecord emptyWorld))))
      = [LoginWithUsernamePassword orgUrl (Some ''u'') (Some ''p'')]
   \<and> refreshExchange extRefreshDown devRecord = Some (Inl (Rejected ''network''))
   \<and> fst (reAuthenticate extRefreshDown devRecord emptyWorld) = Inl (Rejected ''network'')
   \<and> filter isStrategyCall
        (since emptyWorld (snd (snd (reAuthenticate extRefreshDown devRecord emptyWorld)))) = []"
  using reAuthenticate_refresh_then_fallback
          [where c = staleRecord and lt = UserNamePassword and x = extGranting and w = emptyWorld]
        reAuthenticate_refresh_then_fallback
          [where c = devRecord and x = extRefreshDown and w = emptyWorld
             and err = "Rejected ''network''"]
  by (simp add: example_defs flow_defs world_defs refreshExchange_def refreshCalls_def since_def)

text \<open>
  Claim C4, as stated: a token response without a refresh token leaves the record's
  \<open>refreshToken\<close> at its previous value. It fails: the record held \<open>refresh-0\<close>, the response
  carries no refresh token, and the record's \<open>refreshToken\<close> is \<open>undefined\<close> afterwards.
\<close>

theorem reAuthenticate_refreshToken_cleared_counterexample:
  "refreshToken devRecord = Some ''refresh-0''
   \<and> fst (reAuthenticate extGranting devRecord emptyWorld) = Inr (Some accessOnlyToken)
   \<and> refresh_token accessOnlyToken = None
   \<and> refreshToken (fst (snd (reAuthenticate extGranting devRecord emptyWorld))) = None"
  by (simp add: example_defs flow_defs world_defs)

text \<open>
  Claim C4, amended. When reauthentication obtains a token response, both token fields of the
  record are overwritten from it: \<open>currentAccessToken\<close> with its access token and
  \<open>refreshToken\<close> with its refresh-token field, so an absent one clears the stored refresh
  token; the Overlay then holds the updated record.
\<close>

theorem reAuthenticate_overwrites_both_token_fields:
  "reAuthenticate x c w = (Inr (Some t), c', w') \<longrightarrow>
     currentAccessToken c' = access_token t \<and> refreshToken c' = refresh_token t
     \<and> connectionCurrentStore w' = Some c'"
  by (cases x c w rule: reAuthenticate_cases)
     (auto simp: saveInWorkspace_def emit_def)

theorem reAuthenticate_overwrites_both_token_fields_witness:
  "reAuthenticate extGranting devRecord emptyWorld =
     (Inr (Some accessOnlyToken),
      devRecord\<lparr>currentAccessToken := Some ''access-2'', refreshToken := None\<rparr>,
      \<lparr>connectionStore = None,
       connectionCurrentStore =
         Some (devRecord\<lparr>currentAccessToken := Some ''access-2'', refreshToken := None\<rparr>),
       trace = [LoginWithRefreshToken orgUrl ''refresh-0'',
                SaveInWorkspace
                  (devRecord\<lparr>currentAccessToken := Some ''access-2'', refreshToken := None\<rparr>)]\<rparr>)
   \<and> currentAccessToken (devRecord\<lparr>currentAccessToken := Some ''access-2'', refreshToken := None\<rparr>)
       = access_token accessOnlyToken
   \<and> refreshToken (devRecord\<lparr>currentAccessToken := Some ''access-2'', refreshToken := None\<rparr>)
       = refresh_token accessOnlyToken"
  using reAuthenticate_overwrites_both_token_fields
          [where x = extGranting and c = devRecord and w = emptyWorld and t = accessOnlyToken]
  by (simp add: example_defs flow_defs world_defs)

text \<open>
  Claim C5. For every record, when the call obtains a token from neither path,
  reauthentication ends without a token (it returns \<open>undefined\<close> or throws) and the record's
  \<open>currentAccessToken\<close> and \<open>refreshToken\<close> are what they were before the call. The call
  obtains no token when the refresh path yields none and either the refresh exchange threw, so
  that the fallback never ran, or the fallback path yields none.
\<close>

theorem reAuthenticate_no_token_keeps_fields:
  "refreshPathToken x c = None
   \<and> ((\<exists>err. refreshExchange x c = Some (Inl err)) \<or> fallbackPathToken x c = None) \<longrightarrow>
   (case reAuthenticate x c w of (res, c', w') \<Rightarrow>
      (res = Inr None \<or> (\<exists>err. res = Inl err))
      \<and> currentAccessToken c' = currentAccessToken c \<and> refreshToken c' = refreshToken c)"
  by (cases x c w rule: reAuthenticate_cases)
     (auto simp: refreshPathToken_def fallbackPathToken_def)

text \<open>
  Two runs of it. The refresh exchange answers with nothing and the password exchange throws.
  The refresh exchange throws while the password exchange would have granted: the fallback
  never runs, and the fields stay.
\<close>

theorem reAuthenticate_no_token_keeps_fields_witness:
  "refreshPathToken extRefusing staleRecord = None
   \<and> fallbackPathToken extRefusing staleRecord = None
   \<and> fst (reAuthenticate extRefusing staleRecord emptyWorld) = Inl (Rejected ''invalid_grant'')
   \<and> currentAccessToken (fst (snd (reAuthenticate extRefusing staleRecord emptyWorld)))
       = Some ''access-0''
   \<and> refreshToken (fst (snd (reAuthenticate extRefusing staleRecord emptyWorld))) = Some ''stale''
   \<and> refreshPathToken extRefreshDown devRecord = None
   \<and> refreshExchange extRefreshDown devRecord = Some (Inl (Rejected ''network''))
   \<and> fallbackPathToken extRefreshDown devRecord = Some freshToken
   \<and> fst (reAuthenticate extRefreshDown devRecord emptyWorld) = Inl (Rejected ''network'')
   \<and> currentAccessToken (fst (snd (reAuthenticate extRefreshDown devRecord emptyWorld)))
       = Some ''access-0''
   \<and> refreshToken (fst (snd (reAuthenticate extRefreshDown devRecord emptyWorld)))
       = Some ''refresh-0''"
  using reAuthenticate_no_token_keeps_fields
          [where x = extRefusing and c = staleRecord and w = emptyWorld]
        reAuthenticate_no_token_keeps_fields
          [where x = extRefreshDown and c = devRecord and w = emptyWorld]
  by (simp add: example_defs flow_defs world_defs refreshPathToken_def fallbackPathToken_def
        refreshExchange_def)

subsection \<open>Creation\<close>

text \<open>
  Claim C2: a creation attempt whose name already resolves to a record aborts at the
  Registry-create step, with no authentication call and no token cached in the Overlay.
  The code does not do so. With \<open>dev\<close> in the Registry and the wizard answered with the name
  \<open>dev\<close>, \<open>saveConnection\<close> shows the message and leaves the Registry as it was, but the wizard
  still returns the draft: \<open>addConnection\<close> calls the Azure exchange, stores the tokens in the
  draft, writes it into the Overlay and returns it.
\<close>

theorem addConnection_name_conflict_still_authenticates:
  "getConnectionByName ''dev'' devWorld = Some devRecord
   \<and> addConnection extGranting azurePick devWorld =
       (Inr (Some azureConnected),
        \<lparr>connectionStore = Some [devRecord],
         connectionCurrentStore = Some azureConnected,
         trace =
           [ShowErrorMessage
              ''Connection with same name already exists. Please re-create the connection with a different name.'',
            LoginWithAzure orgUrl, SaveInWorkspace azureConnected] @ reloadEvents\<rparr>)"
  by (simp add: example_defs flow_defs world_defs)

text \<open>
  Claim C3, as stated: with no usable login-type selection the created record's login type is
  PlatformDelegated (\<open>Azure\<close>). It fails: on a dismissed pick the wizard creates a record whose
  login type is \<open>MicrosoftLogin\<close>, the spec's InteractiveBrowser.
\<close>

theorem connectionWizard_default_counterexample:
  "logintypeResponse dismissedPick = None
   \<and> map_option loginType (fst (connectionWizard extGranting dismissedPick emptyWorld))
       = Some (Listed MicrosoftLogin)
   \<and> map_option loginType (fst (connectionWizard extGranting dismissedPick emptyWorld))
       \<noteq> Some (Listed Azure)"
  by (simp add: example_defs flow_defs world_defs)

text \<open>
  Claim C3, amended. When the login-type selection is absent or none of the four members, every
  record the wizard creates has the login type \<open>MicrosoftLogin\<close> (InteractiveBrowser); and the
  wizard does create a record when the URL and the name are given and the name is not reserved.
\<close>

theorem connectionWizard_default_loginType:
  "(logintypeResponse r = None \<or> logintypeResponse r = Some (Unlisted s)) \<longrightarrow>
     (connectionWizard x r w = (Some conn, w') \<longrightarrow> loginType conn = Listed MicrosoftLogin)
   \<and> (envUrlUserResponse r = Some u \<and> u \<noteq> [] \<and> connNameUserResponse r = Some n \<and> n \<noteq> []
        \<and> n \<notin> set (reservedWords x)
       \<longrightarrow> fst (connectionWizard x r w) \<noteq> None)"
  using connectionWizardName_loginType connectionWizardName_succeeds
  by (auto simp: connectionWizard_def Let_def split: option.splits if_splits)

theorem connectionWizard_default_loginType_witness:
  "logintypeResponse dismissedPick = None
   \<and> connectionWizard extGranting dismissedPick emptyWorld =
       (Some (azureDraft\<lparr>loginType := Listed MicrosoftLogin\<rparr>),
        \<lparr>connectionStore = Some [azureDraft\<lparr>loginType := Listed MicrosoftLogin\<rparr>],
         connectionCurrentStore = None,
         trace = [SaveInGlobal [azureDraft\<lparr>loginType := Listed MicrosoftLogin\<rparr>]]\<rparr>)
   \<and> loginType (azureDraft\<lparr>loginType := Listed MicrosoftLogin\<rparr>) = Listed MicrosoftLogin"
  using connectionWizard_default_loginType
          [where r = dismissedPick and x = extGranting and w = emptyWorld and u = orgUrl
             and n = "''dev''"]
  by (simp add: example_defs flow_defs world_defs)

subsection \<open>Name resolution and delete\<close>

text \<open>
  Claim C6. Resolving a name returns the Overlay's record when the Overlay is non-empty and
  its record has exactly that name, whatever the Registry holds. Otherwise it returns the first
  Registry record with that name, and nothing when the Registry key is absent or no Registry
  record has that name.
\<close>

theorem getConnectionByName_overlay_first:
  "(connectionCurrentStore w = Some ov \<and> connectionName ov = n
      \<longrightarrow> getConnectionByName n w = Some ov)
   \<and> ((\<forall>ov. connectionCurrentStore w = Some ov \<longrightarrow> connectionName ov \<noteq> n)
      \<longrightarrow> (connectionStore w = Some (pre @ r # post) \<and> connectionName r = n
             \<and> (\<forall>x\<in>set pre. connectionName x \<noteq> n)
           \<longrightarrow> getConnectionByName n w = Some r)
        \<and> (connectionStore w = None \<longrightarrow> getConnectionByName n w = None)
        \<and> (connectionStore w = Some conns \<and> (\<forall>x\<in>set conns. connectionName x \<noteq> n)
           \<longrightarrow> getConnectionByName n w = None))"
  by (auto simp: getConnectionByName_def getFromGlobal_def getFromWorkspace_def
        find_first_match find_no_match split: option.splits)

text \<open>
  The Overlay holds a record named \<open>dev\<close> and the Registry a different record of that name:
  the Overlay's copy is returned. \<open>test\<close> is found in the Registry.
\<close>

theorem getConnectionByName_overlay_first_witness:
  "connectionCurrentStore shadowWorld = Some staleRecord
   \<and> connectionStore shadowWorld = Some [testRecord, devRecord]
   \<and> connectionName staleRecord = ''dev'' \<and> connectionName devRecord = ''dev''
   \<and> staleRecord \<noteq> devRecord
   \<and> getConnectionByName ''dev'' shadowWorld = Some staleRecord
   \<and> getConnectionByName ''test'' shadowWorld = Some testRecord"
  using getConnectionByName_overlay_first
          [where w = shadowWorld and ov = staleRecord and n = "''dev''"]
        getConnectionByName_overlay_first
          [where w = shadowWorld and n = "''test''" and pre = "[]" and r = testRecord
             and post = "[devRecord]"]
  by (simp add: example_defs flow_defs world_defs)

text \<open>
  Claim C7. For every Registry state, the confirmed delete removes the first record with the
  name; when that leaves no record the key is unset, and whatever the state, the key never holds
  an empty list afterwards. Without the confirmation nothing changes.
\<close>

theorem removeConnection_first_match_and_unset:
  "(connectionStore w = Some (pre @ r # post) \<and> connectionName r = n
      \<and> (\<forall>x\<in>set pre. connectionName x \<noteq> n)
     \<longrightarrow> connectionStore (removeConnection (Some ''Yes'') n w) =
           (if pre @ post = [] then None else Some (pre @ post)))
   \<and> getFromGlobal (removeConnection (Some ''Yes'') n w) \<noteq> Some []
   \<and> (resp \<noteq> Some ''Yes'' \<longrightarrow> removeConnection resp n w = w)"
  using removeConnectionInternal_first [of w pre r post n]
    removeConnectionInternal_never_empty_list [of n w]
  by (simp add: removeConnection_def getFromGlobal_def)

theorem removeConnection_first_match_and_unset_witness:
  "connectionStore devWorld = Some [devRecord]
   \<and> connectionStore (removeConnection (Some ''Yes'') ''dev'' devWorld) = None
   \<and> connectionStore (removeConnection (Some ''Yes'') ''dev'' shadowWorld) = Some [testRecord]
   \<and> removeConnection (Some ''No'') ''dev'' devWorld = devWorld"
  using removeConnection_first_match_and_unset
          [where w = devWorld and pre = "[]" and r = devRecord and post = "[]" and n = "''dev''"
             and resp = "Some ''No''"]
        removeConnection_first_match_and_unset
          [where w = shadowWorld and pre = "[testRecord]" and r = devRecord and post = "[]"
             and n = "''dev''"]
  by (simp add: example_defs)

subsection \<open>Order of effects\<close>



subsection \<open>Failures\<close>

text \<open>
  Claim C9: an authentication failure is rethrown by the create operation and swallowed by
  the connect operation, which then returns \<open>undefined\<close>. The first half holds. The second does
  not: the task that authenticates runs after the \<open>try\<close> block has returned its thenable, so
  the rejection of the exchange is the rejection of \<open>connectToDataverse\<close>.
\<close>

theorem connectToDataverse_failure_propagates:
  "getConnectionByName ''dev'' devWorld = Some devRecord
   \<and> connectToDataverse extRefusing ''dev'' devWorld =
       (Inl (Rejected ''invalid_grant''),
        devWorld\<lparr>trace := [LoginWithUsernamePassword orgUrl (Some ''u'') (Some ''p'')]\<rparr>)
   \<and> fst (connectToDataverse extRefusing ''dev'' devWorld) \<noteq> Inr None
   \<and> fst (addConnection extRefusing azurePick emptyWorld) = Inl (Rejected ''invalid_grant'')"
  by (simp add: example_defs flow_defs world_defs)

text \<open>
  Claim C10. With an empty Overlay, reading the current access token throws; \<open>undefined\<close> is
  returned only when a record is there and holds no token.
\<close>

theorem getTokenFromCurrentConnection_empty_overlay_throws:
  "(connectionCurrentStore w = None \<longrightarrow> getTokenFromCurrentConnection w = Inl TypeError)
   \<and> (getTokenFromCurrentConnection w = Inr None
        \<longleftrightarrow> (\<exists>c. connectionCurrentStore w = Some c \<and> currentAccessToken c = None))"
  by (auto simp: getTokenFromCurrentConnection_def getFromWorkspace_def split: option.splits)

theorem getTokenFromCurrentConnection_empty_overlay_throws_witness:
  "connectionCurrentStore emptyWorld = None
   \<and> getTokenFromCurrentConnection emptyWorld = Inl TypeError
   \<and> getTokenFromCurrentConnection (emptyWorld\<lparr>connectionCurrentStore := Some azureDraft\<rparr>)
       = Inr None
   \<and> getTokenFromCurrentConnection shadowWorld = Inr (Some ''access-0'')"
  using getTokenFromCurrentConnection_empty_overlay_throws [where w = emptyWorld]
        getTokenFromCurrentConnection_empty_overlay_throws
          [where w = "emptyWorld\<lparr>connectionCurrentStore := Some azureDraft\<rparr>"]
  by (simp add: example_defs flow_defs world_defs)

end
